theory Spec2Isabelle
  imports Main "HOL-Library.Word"
begin

unbundle bit_operations_syntax

section \<open>The CCID command layer of the HOTP verification tool (operations_ccid.c)\<close>

text \<open>
  The file under verification, \<^verbatim>\<open>src/operations_ccid.c\<close>, holds five operations:
  \<^verbatim>\<open>set_pin_ccid\<close>, \<^verbatim>\<open>authenticate_ccid\<close>, \<^verbatim>\<open>set_secret_on_device_ccid\<close>,
  \<^verbatim>\<open>verify_code_ccid\<close> and \<^verbatim>\<open>status_ccid\<close>. Each builds an array of TLV fields,
  has it packed into the send buffer, runs one exchange with the device and maps the
  status word of the answer to a return code.

  The headers the file includes (\<^verbatim>\<open>return_codes.h\<close>, \<^verbatim>\<open>settings.h\<close>, \<^verbatim>\<open>tlv.h\<close>,
  \<^verbatim>\<open>ccid.h\<close>, \<^verbatim>\<open>device.h\<close>, \<^verbatim>\<open>base32.h\<close>, \<^verbatim>\<open>utils.h\<close>) are not part of the
  sources at hand. Their constants are the fields of the record \<open>ccid_constants\<close>, the
  functions they declare are the fields of the record \<open>ccid_externals\<close>; every operation
  takes both as parameters, so each theorem holds for all values of the constants and
  all behaviours of the codec, the transport and the decoder, unless it says otherwise.
\<close>

subsection \<open>Machine types\<close>

type_synonym u8 = "8 word"
type_synonym u16 = "16 word"
type_synonym u32 = "32 word"
type_synonym u64 = "64 word"

text \<open>
  A pointer to bytes (\<^verbatim>\<open>const char *\<close>, \<^verbatim>\<open>const uint8_t *\<close>) is the list of the bytes
  that can be read through it, the pointed-to byte first. The null pointer, and a pointer
  to the end of its buffer, is the empty list. A C \<^verbatim>\<open>int\<close> that is only compared and
  returned is an \<open>int\<close>; a \<^verbatim>\<open>size_t\<close> that counts bytes held in memory is a \<open>nat\<close>.
\<close>

type_synonym bytes = "u8 list"

subsection \<open>The C library's string length functions\<close>

text \<open>
  \<^verbatim>\<open>strlen\<close> counts the bytes before the first NUL; \<^verbatim>\<open>strnlen(s, n)\<close> does the same
  but looks at no more than \<open>n\<close> bytes.
\<close>

fun strlen :: "bytes \<Rightarrow> nat" where
  "strlen [] = 0"
| "strlen (c # s) = (if c = 0 then 0 else Suc (strlen s))"

fun strnlen :: "bytes \<Rightarrow> nat \<Rightarrow> nat" where
  "strnlen s 0 = 0"
| "strnlen [] (Suc n) = 0"
| "strnlen (c # s) (Suc n) = (if c = 0 then 0 else Suc (strnlen s n))"

subsection \<open>TLV fields and the result of an exchange\<close>

text \<open>
  \<^verbatim>\<open>TLV\<close> (tlv.h): a tag, a length, a type letter and a union of \<^verbatim>\<open>v_str\<close>,
  \<^verbatim>\<open>v_data\<close> (pointers) and \<^verbatim>\<open>v_raw\<close> (a 32-bit integer). The union is a datatype
  with one constructor for each member. The selectors \<open>len\<close> and \<open>kind\<close> stand for the
  members \<^verbatim>\<open>length\<close> and \<^verbatim>\<open>type\<close>. The header is not at hand: \<^verbatim>\<open>v_data\<close> is taken
  to point to unsigned bytes, as the \<^verbatim>\<open>uint8_t\<close> arrays assigned to it in
  \<^verbatim>\<open>set_secret_on_device_ccid\<close> do, and the length member is a natural number.
\<close>

datatype tlv_value = V_str bytes | V_data bytes | V_raw u32

record TLV =
  tag :: u8
  len :: nat
  kind :: char
  val :: tlv_value

text \<open>\<^verbatim>\<open>TLV t = {}\<close>: every member zero, the pointer null.\<close>

definition TLV_zero :: TLV where
  "TLV_zero = \<lparr>tag = 0, len = 0, kind = CHR 0x00, val = V_data []\<rparr>"

text \<open>
  \<^verbatim>\<open>IccResult\<close> (ccid.h), the members this file reads: the status word, the pointer to
  the response data and the number of response bytes.
\<close>

record IccResult =
  data_status_code :: u16
  data :: bytes
  data_len :: nat

definition IccResult_zero :: IccResult where
  "IccResult_zero = \<lparr>data_status_code = 0, data = [], data_len = 0\<rparr>"

subsection \<open>Constants of the missing headers\<close>

record ccid_constants =
  RET_NO_ERROR :: int
  RET_WRONG_PIN :: int
  RET_NO_PIN_ATTEMPTS :: int
  RET_SECURITY_STATUS_NOT_SATISFIED :: int
  RET_VALIDATION_FAILED :: int
  RET_VALIDATION_PASSED :: int
  RET_SLOT_NOT_CONFIGURED :: int
  RET_COMM_ERROR :: int
  MAX_PIN_SIZE_CCID :: nat
  HOTP_SECRET_SIZE_BYTES :: nat
  HOTP_CODE_USE_8_DIGITS :: bool
  SLOT_NAME :: bytes
  SLOT_NAME_LEN :: nat
  Tag_Password :: u8
  Tag_CredentialId :: u8
  Tag_Key :: u8
  Tag_Properties :: u8
  Tag_InitialCounter :: u8
  Tag_Response :: u8
  Tag_PINCounter :: u8
  Tag_SerialNumber :: u8
  Tag_Version :: u8
  Ins_SetPIN :: u8
  Ins_VerifyPIN :: u8
  Ins_Put :: u8
  Ins_VerifyCode :: u8
  Kind_HotpReverse :: u8
  Algo_Sha1 :: u8

subsection \<open>The device session and the external functions\<close>

text \<open>
  \<^verbatim>\<open>struct Device\<close> (device.h), the members this file uses: the transport handle and the
  two fixed-size buffers. \<^verbatim>\<open>sizeof dev->ccid_buffer_in\<close> is the length of the list.
\<close>

record 'h Device =
  mp_devhandle_ccid :: 'h
  ccid_buffer_in :: bytes
  ccid_buffer_out :: bytes

text \<open>
  The functions of the codec, the transport and the decoder, in the order of their C
  parameters. A buffer that the C function writes is returned with the result.
  \<^item> \<open>icc_pack_tlvs_for_sending buf size tlvs n ins\<close> gives the buffer after packing and
    the packed length;
  \<^item> \<open>ccid_process_single h rbuf rsize sbuf slen\<close> gives the transport status, the
    receive buffer after the exchange and the \<^verbatim>\<open>IccResult\<close> it filled in;
  \<^item> \<open>send_select_ccid h buf size res\<close> gives the status, the buffer and the result
    (\<open>res\<close> is the zeroed result the caller passes in);
  \<^item> \<open>get_tlv data n t out\<close> gives the status and the TLV it wrote to \<open>out\<close>;
  \<^item> \<open>base32_decode s\<close> gives the bytes written to the output pointer; the C function
    returns their number.
\<close>

record 'h ccid_externals =
  icc_pack_tlvs_for_sending :: "bytes \<Rightarrow> nat \<Rightarrow> TLV list \<Rightarrow> nat \<Rightarrow> u8 \<Rightarrow> bytes \<times> u32"
  ccid_process_single :: "'h \<Rightarrow> bytes \<Rightarrow> nat \<Rightarrow> bytes \<Rightarrow> u32 \<Rightarrow> int \<times> bytes \<times> IccResult"
  send_select_ccid :: "'h \<Rightarrow> bytes \<Rightarrow> nat \<Rightarrow> IccResult \<Rightarrow> int \<times> bytes \<times> IccResult"
  get_tlv :: "bytes \<Rightarrow> nat \<Rightarrow> u8 \<Rightarrow> TLV \<Rightarrow> int \<times> TLV"
  base32_decode :: "bytes \<Rightarrow> bytes"

text \<open>
  What an operation did on the wire: the list of its calls of the transport, in order.
  \<open>Exchange sbuf slen\<close> is a call of \<^verbatim>\<open>ccid_process_single\<close> with that send buffer and
  length, \<open>Select\<close> a call of \<^verbatim>\<open>send_select_ccid\<close>.
\<close>

datatype transport_call = Exchange bytes u32 | Select

text \<open>
  Modelled from the spec: \<^verbatim>\<open>clean_buffers\<close> of device.c is not in the sources. The spec
  (sections 3 and 5): the shared send and receive buffers are cleared (zeroed) at the
  start of every operation. The buffers keep their size.
\<close>

definition clean_buffers :: "'h Device \<Rightarrow> 'h Device" where
  "clean_buffers dev =
     dev\<lparr>ccid_buffer_in := replicate (length (ccid_buffer_in dev)) 0,
         ccid_buffer_out := replicate (length (ccid_buffer_out dev)) 0\<rparr>"

text \<open>
  The two steps every operation on a \<^verbatim>\<open>struct Device\<close> takes after building its fields:
  pack them into \<^verbatim>\<open>dev->ccid_buffer_out\<close>, then exchange.
\<close>

definition encode :: "'h ccid_externals \<Rightarrow> 'h Device \<Rightarrow> TLV list \<Rightarrow> u8 \<Rightarrow> 'h Device \<times> u32" where
  "encode X dev tlvs ins =
     (case icc_pack_tlvs_for_sending X (ccid_buffer_out dev) (length (ccid_buffer_out dev))
             tlvs (length tlvs) ins of
        (buf, icc_actual_length) \<Rightarrow> (dev\<lparr>ccid_buffer_out := buf\<rparr>, icc_actual_length))"

definition send :: "'h ccid_externals \<Rightarrow> 'h Device \<Rightarrow> u32 \<Rightarrow> int \<times> IccResult \<times> 'h Device \<times> transport_call list" where
  "send X dev icc_actual_length =
     (case ccid_process_single X (mp_devhandle_ccid dev) (ccid_buffer_in dev)
             (length (ccid_buffer_in dev)) (ccid_buffer_out dev) icc_actual_length of
        (r, buf, iccResult) \<Rightarrow>
          (r, iccResult, dev\<lparr>ccid_buffer_in := buf\<rparr>,
           [Exchange (ccid_buffer_out dev) icc_actual_length]))"

subsection \<open>set_pin_ccid and authenticate_ccid\<close>

definition set_pin_tlvs :: "ccid_constants \<Rightarrow> bytes \<Rightarrow> TLV list" where
  "set_pin_tlvs K admin_PIN =
     [\<lparr>tag = Tag_Password K, len = strnlen admin_PIN (MAX_PIN_SIZE_CCID K),
       kind = CHR ''S'', val = V_str admin_PIN\<rparr>]"

definition set_pin_ccid :: "'h ccid_externals \<Rightarrow> ccid_constants \<Rightarrow> 'h Device \<Rightarrow> bytes \<Rightarrow> int \<times> 'h Device \<times> transport_call list" where
  "set_pin_ccid X K dev admin_PIN =
     (let tlvs = set_pin_tlvs K admin_PIN;
          dev1 = clean_buffers dev
      in case encode X dev1 tlvs (Ins_SetPIN K) of (dev2, icc_actual_length) \<Rightarrow>
         case send X dev2 icc_actual_length of (r, iccResult, dev3, calls) \<Rightarrow>
           if r \<noteq> 0 then (r, dev3, calls)
           else if data_status_code iccResult \<noteq> 0x9000 then (1, dev3, calls)
           else (0, dev3, calls))"

definition authenticate_tlvs :: "ccid_constants \<Rightarrow> bytes \<Rightarrow> TLV list" where
  "authenticate_tlvs K admin_PIN =
     [\<lparr>tag = Tag_Password K, len = strnlen admin_PIN 30,
       kind = CHR ''S'', val = V_str admin_PIN\<rparr>]"

definition authenticate_ccid :: "'h ccid_externals \<Rightarrow> ccid_constants \<Rightarrow> 'h Device \<Rightarrow> bytes \<Rightarrow> int \<times> 'h Device \<times> transport_call list" where
  "authenticate_ccid X K dev admin_PIN =
     (let tlvs = authenticate_tlvs K admin_PIN;
          dev1 = clean_buffers dev
      in case encode X dev1 tlvs (Ins_VerifyPIN K) of (dev2, icc_actual_length) \<Rightarrow>
         case send X dev2 icc_actual_length of (r, iccResult, dev3, calls) \<Rightarrow>
           if r \<noteq> 0 then (r, dev3, calls)
           else if data_status_code iccResult = 0x6300 then (RET_WRONG_PIN K, dev3, calls)
           else if data_status_code iccResult \<noteq> 0x9000 then (1, dev3, calls)
           else (RET_NO_ERROR K, dev3, calls))"

subsection \<open>Contract checks and memory reads\<close>

text \<open>
  Modelled from the spec: the macro \<^verbatim>\<open>rassert\<close> of utils.h is not in the sources. The
  spec (section 7): a contract violation is fatal and fails fast, before any transport
  activity, and this layer does not recover from it. A failed \<^verbatim>\<open>rassert(e)\<close> ends the
  operation with \<open>Rassert_failed\<close> and the text of \<open>e\<close>.
\<close>

datatype fault = Rassert_failed string | Invalid_read | Invalid_write

text \<open>
  \<open>Invalid_read\<close> and \<open>Invalid_write\<close> are accesses outside the object a pointer points
  into. C leaves them undefined; here the operation ends with the fault at the first such
  access, and nothing is said about what the program does after it.

  Reading through the pointer member of a TLV. The code reads one, two or four bytes
  without looking at the length member; a read of more bytes than the pointer has is
  outside the buffer and is the fault \<open>Invalid_read\<close> here. An integer member read as a
  pointer has no readable bytes. \<^verbatim>\<open>be16toh\<close> and \<^verbatim>\<open>be32toh\<close> of a value loaded in
  host order give the big-endian reading of the bytes on every host.
\<close>

fun pointer :: "tlv_value \<Rightarrow> bytes" where
  "pointer (V_str p) = p"
| "pointer (V_data p) = p"
| "pointer (V_raw w) = []"

fun deref_u8 :: "bytes \<Rightarrow> u8 option" where
  "deref_u8 (b # p) = Some b"
| "deref_u8 [] = None"

fun deref_be16 :: "bytes \<Rightarrow> u16 option" where
  "deref_be16 (a # b # p) = Some (push_bit 8 (ucast a) OR ucast b)"
| "deref_be16 p = None"

fun deref_be32 :: "bytes \<Rightarrow> u32 option" where
  "deref_be32 (a # b # c # d # p) =
     Some (push_bit 24 (ucast a) OR push_bit 16 (ucast b) OR push_bit 8 (ucast c) OR ucast d)"
| "deref_be32 p = None"

subsection \<open>set_secret_on_device_ccid\<close>

text \<open>
  \<^verbatim>\<open>binary_secret_buf\<close> has \<^verbatim>\<open>HOTP_SECRET_SIZE_BYTES + 2\<close> bytes, all zero at first;
  the decoder writes from offset 2 and the two header bytes are stored afterwards. The
  array has room for \<^verbatim>\<open>HOTP_SECRET_SIZE_BYTES\<close> decoded bytes and the decoder is given
  no bound (lines 105 and 106): when it yields more, it has written past the end of the
  array before the length check of line 107 is reached. The operation below ends with
  \<open>Invalid_write\<close> there. When the decoded bytes fit, the array is the list below.
\<close>

definition binary_secret_buf :: "ccid_constants \<Rightarrow> bytes \<Rightarrow> bytes" where
  "binary_secret_buf K decoded =
     [Kind_HotpReverse K OR Algo_Sha1 K, if HOTP_CODE_USE_8_DIGITS K then 8 else 6]
     @ decoded @ replicate (HOTP_SECRET_SIZE_BYTES K - length decoded) 0"

definition set_secret_tlvs :: "ccid_constants \<Rightarrow> bytes \<Rightarrow> nat \<Rightarrow> u32 \<Rightarrow> TLV list" where
  "set_secret_tlvs K secret_buf decoded_length initial_counter_value =
     (let properties = [Tag_Properties K, 0x00] in
      [\<lparr>tag = Tag_CredentialId K, len = SLOT_NAME_LEN K, kind = CHR ''S'',
        val = V_str (SLOT_NAME K)\<rparr>,
       \<lparr>tag = Tag_Key K, len = decoded_length, kind = CHR ''R'', val = V_data secret_buf\<rparr>,
       \<lparr>tag = Tag_Properties K, len = 2, kind = CHR ''B'', val = V_data properties\<rparr>,
       \<lparr>tag = Tag_InitialCounter K, len = 4, kind = CHR ''I'',
        val = V_raw initial_counter_value\<rparr>])"

definition set_secret_on_device_ccid :: "'h ccid_externals \<Rightarrow> ccid_constants \<Rightarrow> 'h Device \<Rightarrow> bytes \<Rightarrow> u64 \<Rightarrow> (fault + int) \<times> 'h Device \<times> transport_call list" where
  "set_secret_on_device_ccid X K dev OTP_secret_base32 hotp_counter =
     (let decoded = base32_decode X OTP_secret_base32;
          decoded_length = length decoded + 2
      in if HOTP_SECRET_SIZE_BYTES K < length decoded
         then (Inl Invalid_write, dev, [])
         else if \<not> decoded_length \<le> HOTP_SECRET_SIZE_BYTES K
         then (Inl (Rassert_failed ''decoded_length <= HOTP_SECRET_SIZE_BYTES''), dev, [])
         else if \<not> hotp_counter < 0xFFFFFFFF
         then (Inl (Rassert_failed ''hotp_counter < 0xFFFFFFFF''), dev, [])
         else
           let initial_counter_value = (ucast hotp_counter :: u32);
               tlvs = set_secret_tlvs K (binary_secret_buf K decoded) decoded_length
                        initial_counter_value;
               dev1 = clean_buffers dev
           in case encode X dev1 tlvs (Ins_Put K) of (dev2, icc_actual_length) \<Rightarrow>
              case send X dev2 icc_actual_length of (r, iccResult, dev3, calls) \<Rightarrow>
                if r \<noteq> 0 then (Inr r, dev3, calls)
                else if data_status_code iccResult = 0x6a82
                  then (Inr (RET_NO_PIN_ATTEMPTS K), dev3, calls)
                else if data_status_code iccResult = 0x6982
                  then (Inr (RET_SECURITY_STATUS_NOT_SATISFIED K), dev3, calls)
                else if data_status_code iccResult \<noteq> 0x9000
                  then (Inr (RET_VALIDATION_FAILED K), dev3, calls)
                else (Inr (RET_NO_ERROR K), dev3, calls))"

subsection \<open>verify_code_ccid\<close>

definition verify_code_tlvs :: "ccid_constants \<Rightarrow> u32 \<Rightarrow> TLV list" where
  "verify_code_tlvs K code_to_verify =
     [\<lparr>tag = Tag_CredentialId K, len = SLOT_NAME_LEN K, kind = CHR ''S'',
       val = V_str (SLOT_NAME K)\<rparr>,
      \<lparr>tag = Tag_Response K, len = 4, kind = CHR ''I'', val = V_raw code_to_verify\<rparr>]"

definition verify_code_ccid :: "'h ccid_externals \<Rightarrow> ccid_constants \<Rightarrow> 'h Device \<Rightarrow> u32 \<Rightarrow> int \<times> 'h Device \<times> transport_call list" where
  "verify_code_ccid X K dev code_to_verify =
     (let tlvs = verify_code_tlvs K code_to_verify;
          dev1 = clean_buffers dev
      in case encode X dev1 tlvs (Ins_VerifyCode K) of (dev2, icc_actual_length) \<Rightarrow>
         case send X dev2 icc_actual_length of (r, iccResult, dev3, calls) \<Rightarrow>
           if r \<noteq> 0 then (r, dev3, calls)
           else if data_status_code iccResult = 0x6A82
             then (RET_SLOT_NOT_CONFIGURED K, dev3, calls)
           else if data_status_code iccResult \<noteq> 0x9000
             then (RET_VALIDATION_FAILED K, dev3, calls)
           else (RET_VALIDATION_PASSED K, dev3, calls))"

subsection \<open>status_ccid\<close>

text \<open>
  The three output parameters, once the null checks have passed: the values held by the
  cells that \<^verbatim>\<open>attempt_counter\<close>, \<^verbatim>\<open>firmware_version\<close> and \<^verbatim>\<open>serial_number\<close> point to.
\<close>

record status_out =
  attempt_counter :: int
  firmware_version :: u16
  serial_number :: u32

text \<open>Lines 233 to 262: the three fields are taken from the response one after another.\<close>

definition status_fields :: "'h ccid_externals \<Rightarrow> ccid_constants \<Rightarrow> IccResult \<Rightarrow> status_out \<Rightarrow> fault + int \<times> status_out" where
  "status_fields X K iccResult out =
     (case get_tlv X (data iccResult) (data_len iccResult) (Tag_PINCounter K) TLV_zero of
        (r1, counter_tlv) \<Rightarrow>
     (case (if \<not> (r1 = RET_NO_ERROR K \<and> tag counter_tlv = Tag_PINCounter K)
            then Some (- 1)
            else map_option uint (deref_u8 (pointer (val counter_tlv)))) of
        None \<Rightarrow> Inl Invalid_read
      | Some ac \<Rightarrow>
     (let out1 = out\<lparr>attempt_counter := ac\<rparr> in
     (case get_tlv X (data iccResult) (data_len iccResult) (Tag_SerialNumber K) TLV_zero of
        (r2, serial_tlv) \<Rightarrow>
     (case (if r2 = RET_NO_ERROR K \<and> tag serial_tlv = Tag_SerialNumber K
            then deref_be32 (pointer (val serial_tlv))
            else Some 0) of
        None \<Rightarrow> Inl Invalid_read
      | Some sn \<Rightarrow>
     (let out2 = out1\<lparr>serial_number := sn\<rparr> in
     (case get_tlv X (data iccResult) (data_len iccResult) (Tag_Version K) TLV_zero of
        (r3, version_tlv) \<Rightarrow>
     (if \<not> (r3 = RET_NO_ERROR K \<and> tag version_tlv = Tag_Version K)
      then Inr (RET_COMM_ERROR K, out2\<lparr>firmware_version := 0\<rparr>)
      else
       (case deref_be16 (pointer (val version_tlv)) of
          None \<Rightarrow> Inl Invalid_read
        | Some fw \<Rightarrow>
         (let out3 = out2\<lparr>firmware_version := fw\<rparr> in
          if attempt_counter out3 = - 1 then Inr (RET_NO_PIN_ATTEMPTS K, out3)
          else Inr (RET_NO_ERROR K, out3)))))))))))"

text \<open>
  The whole operation. A pointer argument is \<open>None\<close> when it is null; an output pointer
  that is not null is \<open>Some\<close> of the value its cell holds at the call.
\<close>

definition status_ccid :: "'h ccid_externals \<Rightarrow> ccid_constants \<Rightarrow> 'h option \<Rightarrow> int option \<Rightarrow> u16 option \<Rightarrow> u32 option \<Rightarrow> (fault + int \<times> status_out) \<times> transport_call list" where
  "status_ccid X K handle attempt_counter_p firmware_version_p serial_number_p =
     (case handle of
        None \<Rightarrow> (Inl (Rassert_failed ''handle != NULL''), [])
      | Some h \<Rightarrow>
     (case attempt_counter_p of
        None \<Rightarrow> (Inl (Rassert_failed ''attempt_counter != NULL''), [])
      | Some ac \<Rightarrow>
     (case firmware_version_p of
        None \<Rightarrow> (Inl (Rassert_failed ''firmware_version != NULL''), [])
      | Some fw \<Rightarrow>
     (case serial_number_p of
        None \<Rightarrow> (Inl (Rassert_failed ''serial_number != NULL''), [])
      | Some sn \<Rightarrow>
       (let out = \<lparr>attempt_counter = ac, firmware_version = fw, serial_number = sn\<rparr>;
            buf = replicate 1024 (0 :: u8)
        in case send_select_ccid X h buf 1024 IccResult_zero of (r, buf', iccResult) \<Rightarrow>
           if r \<noteq> RET_NO_ERROR K then (Inr (r, out), [Select])
           else if data_len iccResult = 0 \<or> data_status_code iccResult \<noteq> 0x9000
             then (Inr (RET_COMM_ERROR K, out), [Select])
           else (status_fields X K iccResult out, [Select]))))))"

subsection \<open>Notions the statements below use\<close>

text \<open>
  The exchange an operation runs, seen from its caller: the transport's answer to the
  request that \<open>encode\<close> packed over the cleared buffers.
\<close>

definition exchange_of :: "'h ccid_externals \<Rightarrow> 'h Device \<Rightarrow> TLV list \<Rightarrow> u8 \<Rightarrow> int \<times> IccResult" where
  "exchange_of X dev tlvs ins =
     (case encode X (clean_buffers dev) tlvs ins of (dev2, n) \<Rightarrow>
      case send X dev2 n of (r, iccResult, dev3, calls) \<Rightarrow> (r, iccResult))"

text \<open>The answer of the device to the select request of \<open>status_ccid\<close>.\<close>

definition select_of :: "'h ccid_externals \<Rightarrow> 'h \<Rightarrow> int \<times> IccResult" where
  "select_of X h =
     (case send_select_ccid X h (replicate 1024 0) 1024 IccResult_zero of
        (r, buf, iccResult) \<Rightarrow> (r, iccResult))"


text \<open>
  The fields \<open>set_secret_on_device_ccid\<close> builds for a secret text and a counter whose
  checks pass.
\<close>

definition provision_tlvs :: "'h ccid_externals \<Rightarrow> ccid_constants \<Rightarrow> bytes \<Rightarrow> u64 \<Rightarrow> TLV list" where
  "provision_tlvs X K secret counter =
     set_secret_tlvs K (binary_secret_buf K (base32_decode X secret))
       (length (base32_decode X secret) + 2) (ucast counter)"

text \<open>
  The transport call that carries the fields \<open>tlvs\<close>: the send buffer as the codec left
  it after packing over the cleared buffers, and the packed length.
\<close>

definition request_of :: "'h ccid_externals \<Rightarrow> 'h Device \<Rightarrow> TLV list \<Rightarrow> u8 \<Rightarrow> transport_call" where
  "request_of X dev tlvs ins =
     (case encode X (clean_buffers dev) tlvs ins of (dev2, n) \<Rightarrow>
        Exchange (ccid_buffer_out dev2) n)"






text \<open>
  One exchange on zeroed buffers, written with the external functions alone: the codec
  packs the fields into a send buffer of zeros, the transport is handed a receive buffer
  of zeros and the packed request. The result is the transport status, the
  \<^verbatim>\<open>IccResult\<close>, the session with the two buffers as codec and transport left them, and
  the one transport call.
\<close>

definition exchange_zeroed :: "'h ccid_externals \<Rightarrow> 'h Device \<Rightarrow> TLV list \<Rightarrow> u8 \<Rightarrow> int \<times> IccResult \<times> 'h Device \<times> transport_call list" where
  "exchange_zeroed X dev tlvs ins =
     (case icc_pack_tlvs_for_sending X (replicate (length (ccid_buffer_out dev)) 0)
             (length (ccid_buffer_out dev)) tlvs (length tlvs) ins of
        (sbuf, n) \<Rightarrow>
      case ccid_process_single X (mp_devhandle_ccid dev)
             (replicate (length (ccid_buffer_in dev)) 0) (length (ccid_buffer_in dev))
             sbuf n of
        (r, rbuf, res) \<Rightarrow>
          (r, res,
           \<lparr>mp_devhandle_ccid = mp_devhandle_ccid dev, ccid_buffer_in = rbuf,
            ccid_buffer_out = sbuf\<rparr>,
           [Exchange sbuf n]))"

subsection \<open>A simulated device for the closed examples\<close>

text \<open>
  The closed examples below run the operations against a test double. The values of the
  constants are samples (the headers are not at hand): the return codes are pairwise
  distinct but for \<open>RET_VALIDATION_PASSED\<close>, which is \<open>RET_NO_ERROR\<close>.
\<close>

definition sample_constants :: ccid_constants where
  "sample_constants =
     \<lparr>RET_NO_ERROR = 0, RET_WRONG_PIN = 5, RET_NO_PIN_ATTEMPTS = 10,
      RET_SECURITY_STATUS_NOT_SATISFIED = 11, RET_VALIDATION_FAILED = 7,
      RET_VALIDATION_PASSED = 0, RET_SLOT_NOT_CONFIGURED = 8, RET_COMM_ERROR = 9,
      MAX_PIN_SIZE_CCID = 6, HOTP_SECRET_SIZE_BYTES = 8, HOTP_CODE_USE_8_DIGITS = False,
      SLOT_NAME = [0x48, 0x4F, 0x54, 0x50, 0], SLOT_NAME_LEN = 4,
      Tag_Password = 0x80, Tag_CredentialId = 0x71, Tag_Key = 0x73, Tag_Properties = 0x78,
      Tag_InitialCounter = 0x7A, Tag_Response = 0x75, Tag_PINCounter = 0x82,
      Tag_SerialNumber = 0x8F, Tag_Version = 0x79,
      Ins_SetPIN = 0xB4, Ins_VerifyPIN = 0xB2, Ins_Put = 0x01, Ins_VerifyCode = 0xB1,
      Kind_HotpReverse = 0x30, Algo_Sha1 = 0x01\<rparr>"

text \<open>A session whose buffers (eight bytes each) still hold bytes of an earlier command.\<close>

definition sample_device :: "unit Device" where
  "sample_device =
     \<lparr>mp_devhandle_ccid = (),
      ccid_buffer_in = [0x90, 0x00, 0xDE, 0xAD, 0xBE, 0xEF, 0x01, 0x02],
      ccid_buffer_out = [0xB2, 0x80, 0x04, 0x31, 0x32, 0x33, 0x34, 0x00]\<rparr>"

text \<open>The double's codec: the instruction byte, then tag and length of every field.\<close>

definition sim_pack :: "bytes \<Rightarrow> nat \<Rightarrow> TLV list \<Rightarrow> nat \<Rightarrow> u8 \<Rightarrow> bytes \<times> u32" where
  "sim_pack buf cap tlvs n ins =
     (let apdu = ins # concat (map (\<lambda>t. [tag t, of_nat (len t)]) (take n tlvs))
      in (take cap (apdu @ drop (length apdu) buf), of_nat (length apdu)))"

text \<open>The double's decoder of one field: a scan over tag, length, value triples.\<close>

fun find_tlv :: "bytes \<Rightarrow> u8 \<Rightarrow> TLV option" where
  "find_tlv (t # l # rest) wanted =
     (if t = wanted then Some \<lparr>tag = t, len = unat l, kind = CHR ''R'', val = V_data rest\<rparr>
      else find_tlv (drop (unat l) rest) wanted)"
| "find_tlv p wanted = None"

definition sim_get_tlv :: "bytes \<Rightarrow> nat \<Rightarrow> u8 \<Rightarrow> TLV \<Rightarrow> int \<times> TLV" where
  "sim_get_tlv d n t out =
     (case find_tlv (take n d) t of None \<Rightarrow> (1, out) | Some tlv \<Rightarrow> (0, tlv))"

text \<open>
  \<open>sim_device r sw payload\<close>: every exchange and every select ends with the transport
  status \<open>r\<close>, the status word \<open>sw\<close> and the response data \<open>payload\<close>. Its decoder
  stands in for base32: it hands back the text before the NUL, byte for byte.
\<close>

definition sim_device :: "int \<Rightarrow> u16 \<Rightarrow> bytes \<Rightarrow> unit ccid_externals" where
  "sim_device r sw payload =
     \<lparr>icc_pack_tlvs_for_sending = sim_pack,
      ccid_process_single = (\<lambda>h rbuf rsize sbuf slen.
         (r, rbuf, \<lparr>data_status_code = sw, data = payload, data_len = length payload\<rparr>)),
      send_select_ccid = (\<lambda>h buf cap res.
         (r, buf, \<lparr>data_status_code = sw, data = payload, data_len = length payload\<rparr>)),
      get_tlv = sim_get_tlv,
      base32_decode = (\<lambda>s. take (strlen s) s)\<rparr>"

text \<open>A second session on the same handle, with other bytes left in the buffers.\<close>

definition other_device :: "unit Device" where
  "other_device =
     \<lparr>mp_devhandle_ccid = (),
      ccid_buffer_in = [0x63, 0x00, 0x11, 0x22, 0x33, 0x44, 0x55, 0x66],
      ccid_buffer_out = [0x01, 0x71, 0x04, 0x48, 0x4F, 0x54, 0x50, 0x73]\<rparr>"

section \<open>Theorems\<close>

subsection \<open>Auxiliary facts\<close>

lemma strnlen_min: "strnlen s n = min (strlen s) n"
  by (induction s n rule: strnlen.induct) auto

lemma exchange_ofD:
  assumes "exchange_of X dev tlvs ins = (r, res)"
  obtains dev2 n dev3 calls where
    "encode X (clean_buffers dev) tlvs ins = (dev2, n)" "send X dev2 n = (r, res, dev3, calls)"
  using assms by (auto simp: exchange_of_def split: prod.splits)

lemma send_calls:
  "send X dev2 n = (r, res, dev3, calls) \<Longrightarrow> calls = [Exchange (ccid_buffer_out dev2) n]"
  by (auto simp: send_def split: prod.splits)

lemma runD:
  obtains dev2 n r res dev3 where
    "encode X (clean_buffers dev) tlvs ins = (dev2, n)"
    "send X dev2 n = (r, res, dev3, [request_of X dev tlvs ins])"
    "exchange_of X dev tlvs ins = (r, res)"
proof -
  obtain dev2 n where e: "encode X (clean_buffers dev) tlvs ins = (dev2, n)"
    by (cases "encode X (clean_buffers dev) tlvs ins")
  obtain r res dev3 calls where s: "send X dev2 n = (r, res, dev3, calls)"
    by (cases "send X dev2 n")
  have c: "calls = [request_of X dev tlvs ins]"
    using send_calls [OF s] e by (simp add: request_of_def)
  have "exchange_of X dev tlvs ins = (r, res)"
    using e s by (simp add: exchange_of_def)
  with e s c that show thesis by blast
qed

lemma set_pin_ccid_run:
  assumes "encode X (clean_buffers dev) (set_pin_tlvs K pin) (Ins_SetPIN K) = (dev2, n)"
    and "send X dev2 n = (r, res, dev3, calls)"
  shows "set_pin_ccid X K dev pin =
     (if r \<noteq> 0 then r else if data_status_code res \<noteq> 0x9000 then 1 else 0, dev3, calls)"
  using assms by (simp add: set_pin_ccid_def Let_def)

lemma authenticate_ccid_run:
  assumes "encode X (clean_buffers dev) (authenticate_tlvs K pin) (Ins_VerifyPIN K) = (dev2, n)"
    and "send X dev2 n = (r, res, dev3, calls)"
  shows "authenticate_ccid X K dev pin =
     (if r \<noteq> 0 then r
      else if data_status_code res = 0x6300 then RET_WRONG_PIN K
      else if data_status_code res \<noteq> 0x9000 then 1
      else RET_NO_ERROR K, dev3, calls)"
  using assms by (simp add: authenticate_ccid_def Let_def)

lemma verify_code_ccid_run:
  assumes "encode X (clean_buffers dev) (verify_code_tlvs K code) (Ins_VerifyCode K) = (dev2, n)"
    and "send X dev2 n = (r, res, dev3, calls)"
  shows "verify_code_ccid X K dev code =
     (if r \<noteq> 0 then r
      else if data_status_code res = 0x6A82 then RET_SLOT_NOT_CONFIGURED K
      else if data_status_code res \<noteq> 0x9000 then RET_VALIDATION_FAILED K
      else RET_VALIDATION_PASSED K, dev3, calls)"
  using assms by (simp add: verify_code_ccid_def Let_def)

lemma set_secret_run:
  assumes len: "length (base32_decode X secret) + 2 \<le> HOTP_SECRET_SIZE_BYTES K"
    and cnt: "counter < 0xFFFFFFFF"
    and enc: "encode X (clean_buffers dev) (provision_tlvs X K secret counter) (Ins_Put K) = (dev2, n)"
    and snd: "send X dev2 n = (r, res, dev3, calls)"
  shows "set_secret_on_device_ccid X K dev secret counter =
     (Inr (if r \<noteq> 0 then r
           else if data_status_code res = 0x6a82 then RET_NO_PIN_ATTEMPTS K
           else if data_status_code res = 0x6982 then RET_SECURITY_STATUS_NOT_SATISFIED K
           else if data_status_code res \<noteq> 0x9000 then RET_VALIDATION_FAILED K
           else RET_NO_ERROR K), dev3, calls)"
  using assms by (simp add: set_secret_on_device_ccid_def provision_tlvs_def Let_def)

lemma set_pin_ccid_calls:
  "snd (snd (set_pin_ccid X K dev pin)) = [request_of X dev (set_pin_tlvs K pin) (Ins_SetPIN K)]"
proof -
  obtain dev2 n r res dev3 where
    "encode X (clean_buffers dev) (set_pin_tlvs K pin) (Ins_SetPIN K) = (dev2, n)"
    "send X dev2 n = (r, res, dev3, [request_of X dev (set_pin_tlvs K pin) (Ins_SetPIN K)])"
    by (rule runD)
  from set_pin_ccid_run [OF this] show ?thesis by simp
qed

lemma authenticate_ccid_calls:
  "snd (snd (authenticate_ccid X K dev pin)) =
     [request_of X dev (authenticate_tlvs K pin) (Ins_VerifyPIN K)]"
proof -
  obtain dev2 n r res dev3 where
    "encode X (clean_buffers dev) (authenticate_tlvs K pin) (Ins_VerifyPIN K) = (dev2, n)"
    "send X dev2 n = (r, res, dev3, [request_of X dev (authenticate_tlvs K pin) (Ins_VerifyPIN K)])"
    by (rule runD)
  from authenticate_ccid_run [OF this] show ?thesis by simp
qed

lemma verify_code_ccid_calls:
  "snd (snd (verify_code_ccid X K dev code)) =
     [request_of X dev (verify_code_tlvs K code) (Ins_VerifyCode K)]"
proof -
  obtain dev2 n r res dev3 where
    "encode X (clean_buffers dev) (verify_code_tlvs K code) (Ins_VerifyCode K) = (dev2, n)"
    "send X dev2 n = (r, res, dev3, [request_of X dev (verify_code_tlvs K code) (Ins_VerifyCode K)])"
    by (rule runD)
  from verify_code_ccid_run [OF this] show ?thesis by simp
qed

lemma set_pin_ccid_fst:
  assumes "exchange_of X dev (set_pin_tlvs K pin) (Ins_SetPIN K) = (r, res)"
  shows "fst (set_pin_ccid X K dev pin) =
     (if r \<noteq> 0 then r else if data_status_code res \<noteq> 0x9000 then 1 else 0)"
proof -
  from assms obtain dev2 n dev3 calls where
    "encode X (clean_buffers dev) (set_pin_tlvs K pin) (Ins_SetPIN K) = (dev2, n)"
    "send X dev2 n = (r, res, dev3, calls)"
    by (rule exchange_ofD)
  from set_pin_ccid_run [OF this] show ?thesis by simp
qed

lemma authenticate_ccid_fst:
  assumes "exchange_of X dev (authenticate_tlvs K pin) (Ins_VerifyPIN K) = (r, res)"
  shows "fst (authenticate_ccid X K dev pin) =
     (if r \<noteq> 0 then r
      else if data_status_code res = 0x6300 then RET_WRONG_PIN K
      else if data_status_code res \<noteq> 0x9000 then 1
      else RET_NO_ERROR K)"
proof -
  from assms obtain dev2 n dev3 calls where
    "encode X (clean_buffers dev) (authenticate_tlvs K pin) (Ins_VerifyPIN K) = (dev2, n)"
    "send X dev2 n = (r, res, dev3, calls)"
    by (rule exchange_ofD)
  then show ?thesis
    by (simp add: authenticate_ccid_def Let_def)
qed

lemma verify_code_ccid_fst:
  assumes "exchange_of X dev (verify_code_tlvs K code) (Ins_VerifyCode K) = (r, res)"
  shows "fst (verify_code_ccid X K dev code) =
     (if r \<noteq> 0 then r
      else if data_status_code res = 0x6A82 then RET_SLOT_NOT_CONFIGURED K
      else if data_status_code res \<noteq> 0x9000 then RET_VALIDATION_FAILED K
      else RET_VALIDATION_PASSED K)"
proof -
  from assms obtain dev2 n dev3 calls where
    "encode X (clean_buffers dev) (verify_code_tlvs K code) (Ins_VerifyCode K) = (dev2, n)"
    "send X dev2 n = (r, res, dev3, calls)"
    by (rule exchange_ofD)
  then show ?thesis
    by (simp add: verify_code_ccid_def Let_def)
qed

lemma set_secret_calls:
  assumes len: "length (base32_decode X secret) + 2 \<le> HOTP_SECRET_SIZE_BYTES K"
    and cnt: "counter < 0xFFFFFFFF"
  shows "snd (snd (set_secret_on_device_ccid X K dev secret counter)) =
     [request_of X dev (provision_tlvs X K secret counter) (Ins_Put K)]"
    and "\<exists>r. fst (set_secret_on_device_ccid X K dev secret counter) = Inr r"
proof -
  obtain dev2 n r res dev3 where
    "encode X (clean_buffers dev) (provision_tlvs X K secret counter) (Ins_Put K) = (dev2, n)"
    "send X dev2 n = (r, res, dev3, [request_of X dev (provision_tlvs X K secret counter) (Ins_Put K)])"
    by (rule runD)
  from set_secret_run [OF len cnt this]
  show "snd (snd (set_secret_on_device_ccid X K dev secret counter)) =
     [request_of X dev (provision_tlvs X K secret counter) (Ins_Put K)]"
    and "\<exists>r. fst (set_secret_on_device_ccid X K dev secret counter) = Inr r"
    by simp_all
qed

lemma set_secret_counter_rejected:
  assumes "\<not> counter < 0xFFFFFFFF"
  shows "\<exists>e. set_secret_on_device_ccid X K dev secret counter = (Inl e, dev, [])"
  using assms by (simp add: set_secret_on_device_ccid_def Let_def)

lemma set_secret_check_failed:
  assumes "length (base32_decode X secret) \<le> HOTP_SECRET_SIZE_BYTES K"
    and "\<not> (length (base32_decode X secret) + 2 \<le> HOTP_SECRET_SIZE_BYTES K
            \<and> counter < 0xFFFFFFFF)"
  shows "\<exists>t. set_secret_on_device_ccid X K dev secret counter =
     (Inl (Rassert_failed t), dev, [])"
  using assms by (auto simp add: set_secret_on_device_ccid_def Let_def)

lemma set_secret_overrun:
  assumes "HOTP_SECRET_SIZE_BYTES K < length (base32_decode X secret)"
  shows "set_secret_on_device_ccid X K dev secret counter = (Inl Invalid_write, dev, [])"
  using assms by (simp add: set_secret_on_device_ccid_def Let_def)

lemma ucast_counter:
  fixes counter :: u64
  assumes "counter < 0xFFFFFFFF"
  shows "uint (ucast counter :: u32) = uint counter"
proof -
  have "uint counter < 2 ^ 32"
    using assms by (simp add: word_less_def)
  then show ?thesis
    by (simp add: unsigned_ucast_eq take_bit_int_eq_self)
qed

lemma propagate:
  assumes "fst (exchange_of X dev tlvs ins) \<noteq> 0"
  obtains dev2 n res dev3 where
    "encode X (clean_buffers dev) tlvs ins = (dev2, n)"
    "send X dev2 n = (fst (exchange_of X dev tlvs ins), res, dev3, [request_of X dev tlvs ins])"
proof -
  obtain dev2 n r res dev3 where
    "encode X (clean_buffers dev) tlvs ins = (dev2, n)"
    "send X dev2 n = (r, res, dev3, [request_of X dev tlvs ins])"
    "exchange_of X dev tlvs ins = (r, res)"
    by (rule runD)
  then show thesis
    using that by simp
qed

lemma select_ofD:
  assumes "select_of X h = (r, res)"
  obtains buf where "send_select_ccid X h (replicate 1024 0) 1024 IccResult_zero = (r, buf, res)"
  using assms by (auto simp: select_of_def split: prod.splits)

lemma status_ccid_run:
  assumes "select_of X h = (r, res)"
  shows "status_ccid X K (Some h) (Some a) (Some f) (Some s) =
     (if r \<noteq> RET_NO_ERROR K
      then Inr (r, \<lparr>attempt_counter = a, firmware_version = f, serial_number = s\<rparr>)
      else if data_len res = 0 \<or> data_status_code res \<noteq> 0x9000
      then Inr (RET_COMM_ERROR K,
                \<lparr>attempt_counter = a, firmware_version = f, serial_number = s\<rparr>)
      else status_fields X K res
             \<lparr>attempt_counter = a, firmware_version = f, serial_number = s\<rparr>, [Select])"
proof -
  from assms obtain buf where
    "send_select_ccid X h (replicate 1024 0) 1024 IccResult_zero = (r, buf, res)"
    by (rule select_ofD)
  then show ?thesis
    by (simp add: status_ccid_def Let_def)
qed

lemma select_of_get_tlv: "select_of (X\<lparr>get_tlv := g\<rparr>) h = select_of X h"
  by (simp add: select_of_def)







lemma cleared_exchange:
  "(case encode X (clean_buffers dev) tlvs ins of (dev2, n) \<Rightarrow> send X dev2 n)
     = exchange_zeroed X dev tlvs ins"
  by (cases dev)
     (simp add: encode_def send_def clean_buffers_def exchange_zeroed_def split: prod.splits)

lemma exchange_zeroed_cong:
  assumes "mp_devhandle_ccid dev' = mp_devhandle_ccid dev"
    and "length (ccid_buffer_in dev') = length (ccid_buffer_in dev)"
    and "length (ccid_buffer_out dev') = length (ccid_buffer_out dev)"
  shows "exchange_zeroed X dev' tlvs ins = exchange_zeroed X dev tlvs ins"
  using assms by (simp add: exchange_zeroed_def)

subsection \<open>Facts about the simulated device\<close>

lemma sim_exchange:
  "exchange_of (sim_device r sw payload) dev tlvs ins =
     (r, \<lparr>data_status_code = sw, data = payload, data_len = length payload\<rparr>)"
  by (simp add: exchange_of_def encode_def send_def sim_device_def split: prod.splits)

lemma sim_decode: "base32_decode (sim_device r sw payload) s = take (strlen s) s"
  by (simp add: sim_device_def)

lemma sim_select:
  "select_of (sim_device r sw payload) h =
     (r, \<lparr>data_status_code = sw, data = payload, data_len = length payload\<rparr>)"
  by (simp add: select_of_def sim_device_def)


subsection \<open>Status words of authenticate_ccid\<close>

text \<open>
  C1. For every PIN and every exchange that the transport reports as successful,
  \<open>authenticate_ccid\<close> returns \<open>RET_WRONG_PIN\<close> exactly when the status word is 0x6300,
  \<open>RET_NO_ERROR\<close> exactly when it is 0x9000, and the generic failure 1 exactly for every
  other status word: the three outcomes split the status words into three disjoint
  classes that cover them all. The values of the two named codes come from a header that
  is not at hand; they are taken to differ from each other and from the literal 1.
\<close>

theorem authenticate_ccid_status_word:
  assumes ex: "exchange_of X dev (authenticate_tlvs K pin) (Ins_VerifyPIN K) = (0, res)"
    and d1: "RET_WRONG_PIN K \<noteq> RET_NO_ERROR K"
    and d2: "RET_WRONG_PIN K \<noteq> 1"
    and d3: "RET_NO_ERROR K \<noteq> 1"
  shows "(fst (authenticate_ccid X K dev pin) = RET_WRONG_PIN K \<longleftrightarrow>
            data_status_code res = 0x6300)
       \<and> (fst (authenticate_ccid X K dev pin) = RET_NO_ERROR K \<longleftrightarrow>
            data_status_code res = 0x9000)
       \<and> (fst (authenticate_ccid X K dev pin) = 1 \<longleftrightarrow>
            data_status_code res \<noteq> 0x6300 \<and> data_status_code res \<noteq> 0x9000)"
proof -
  have r: "fst (authenticate_ccid X K dev pin) =
      (if data_status_code res = 0x6300 then RET_WRONG_PIN K
       else if data_status_code res \<noteq> 0x9000 then 1 else RET_NO_ERROR K)"
    using authenticate_ccid_fst [OF ex] by simp
  show ?thesis
    unfolding r using d1 d2 d3 by auto
qed

text \<open>The spec's scenario: the PIN "0000" against a device that answers 0x6300.\<close>

theorem authenticate_ccid_status_word_witness:
  "exchange_of (sim_device 0 0x6300 []) sample_device
       (authenticate_tlvs sample_constants [0x30, 0x30, 0x30, 0x30, 0])
       (Ins_VerifyPIN sample_constants)
     = (0, \<lparr>data_status_code = 0x6300, data = [], data_len = 0\<rparr>)
   \<and> RET_WRONG_PIN sample_constants \<noteq> RET_NO_ERROR sample_constants
   \<and> RET_WRONG_PIN sample_constants \<noteq> 1
   \<and> RET_NO_ERROR sample_constants \<noteq> 1
   \<and> fst (authenticate_ccid (sim_device 0 0x6300 []) sample_constants sample_device
             [0x30, 0x30, 0x30, 0x30, 0]) = RET_WRONG_PIN sample_constants"
proof -
  have ex: "exchange_of (sim_device 0 0x6300 []) sample_device
       (authenticate_tlvs sample_constants [0x30, 0x30, 0x30, 0x30, 0])
       (Ins_VerifyPIN sample_constants)
     = (0, \<lparr>data_status_code = 0x6300, data = [], data_len = 0\<rparr>)"
    by (simp add: exchange_of_def encode_def send_def sim_device_def sim_pack_def Let_def)
  have d: "RET_WRONG_PIN sample_constants \<noteq> RET_NO_ERROR sample_constants"
     "RET_WRONG_PIN sample_constants \<noteq> 1" "RET_NO_ERROR sample_constants \<noteq> 1"
    by (simp_all add: sample_constants_def)
  show ?thesis
    using authenticate_ccid_status_word [OF ex d] ex d by simp
qed


subsection \<open>The bound on the initial counter\<close>

text \<open>
  C2, as the code has it. The check is \<^verbatim>\<open>hotp_counter < 0xFFFFFFFF\<close>: a counter that is
  not below \<open>2^32 - 1\<close> ends \<open>set_secret_on_device_ccid\<close> with the session untouched and
  no transport call, by a failed \<^verbatim>\<open>rassert\<close> whenever the decoded secret fits the array
  it is decoded into (a longer one has overrun the array before any check). A counter
  below \<open>2^32 - 1\<close>, with a secret whose length check passes, gets through both checks,
  is run in exactly one exchange, and is the value member of the fourth field (tag
  \<open>Tag_InitialCounter\<close>, length 4), unchanged by the conversion to 32 bits.
\<close>

theorem counter_precondition:
  "(\<not> counter < 0xFFFFFFFF \<longrightarrow>
      (\<exists>e. set_secret_on_device_ccid X K dev secret counter = (Inl e, dev, []))
      \<and> (length (base32_decode X secret) \<le> HOTP_SECRET_SIZE_BYTES K \<longrightarrow>
           (\<exists>t. set_secret_on_device_ccid X K dev secret counter =
                  (Inl (Rassert_failed t), dev, []))))
   \<and> (counter < 0xFFFFFFFF \<and> length (base32_decode X secret) + 2 \<le> HOTP_SECRET_SIZE_BYTES K \<longrightarrow>
      (\<exists>r. fst (set_secret_on_device_ccid X K dev secret counter) = Inr r)
      \<and> snd (snd (set_secret_on_device_ccid X K dev secret counter)) =
          [request_of X dev (provision_tlvs X K secret counter) (Ins_Put K)]
      \<and> provision_tlvs X K secret counter ! 3 =
          \<lparr>tag = Tag_InitialCounter K, len = 4, kind = CHR ''I'', val = V_raw (ucast counter)\<rparr>
      \<and> uint (ucast counter :: u32) = uint counter)"
proof (intro conjI impI)
  assume "\<not> counter < 0xFFFFFFFF"
  then show "\<exists>e. set_secret_on_device_ccid X K dev secret counter = (Inl e, dev, [])"
    by (rule set_secret_counter_rejected)
next
  assume "\<not> counter < 0xFFFFFFFF"
    and "length (base32_decode X secret) \<le> HOTP_SECRET_SIZE_BYTES K"
  then show "\<exists>t. set_secret_on_device_ccid X K dev secret counter =
      (Inl (Rassert_failed t), dev, [])"
    by (intro set_secret_check_failed) simp_all
next
  assume a: "counter < 0xFFFFFFFF \<and> length (base32_decode X secret) + 2 \<le> HOTP_SECRET_SIZE_BYTES K"
  then show "\<exists>r. fst (set_secret_on_device_ccid X K dev secret counter) = Inr r"
    using set_secret_calls(2) by blast
  from a show "snd (snd (set_secret_on_device_ccid X K dev secret counter)) =
          [request_of X dev (provision_tlvs X K secret counter) (Ins_Put K)]"
    using set_secret_calls(1) by blast
  show "provision_tlvs X K secret counter ! 3 =
          \<lparr>tag = Tag_InitialCounter K, len = 4, kind = CHR ''I'', val = V_raw (ucast counter)\<rparr>"
    by (simp add: provision_tlvs_def set_secret_tlvs_def Let_def)
  from a show "uint (ucast counter :: u32) = uint counter"
    using ucast_counter by blast
qed

theorem counter_precondition_witness:
  "\<not> (0xFFFFFFFF :: u64) < 0xFFFFFFFF
   \<and> length (base32_decode (sim_device 0 0x9000 []) [0x4A, 0x42, 0x53, 0x57, 0])
        \<le> HOTP_SECRET_SIZE_BYTES sample_constants
   \<and> (\<exists>t. set_secret_on_device_ccid (sim_device 0 0x9000 []) sample_constants sample_device
            [0x4A, 0x42, 0x53, 0x57, 0] 0xFFFFFFFF = (Inl (Rassert_failed t), sample_device, []))
   \<and> (0xFFFFFFFE :: u64) < 0xFFFFFFFF
   \<and> length (base32_decode (sim_device 0 0x9000 []) [0x4A, 0x42, 0x53, 0x57, 0]) + 2
        \<le> HOTP_SECRET_SIZE_BYTES sample_constants
   \<and> (\<exists>r. fst (set_secret_on_device_ccid (sim_device 0 0x9000 []) sample_constants
                  sample_device [0x4A, 0x42, 0x53, 0x57, 0] 0xFFFFFFFE) = Inr r)
   \<and> provision_tlvs (sim_device 0 0x9000 []) sample_constants [0x4A, 0x42, 0x53, 0x57, 0]
        0xFFFFFFFE ! 3
      = \<lparr>tag = 0x7A, len = 4, kind = CHR ''I'', val = V_raw 0xFFFFFFFE\<rparr>
   \<and> uint (ucast (0xFFFFFFFE :: u64) :: u32) = 0xFFFFFFFE"
proof -
  have h1: "\<not> (0xFFFFFFFF :: u64) < 0xFFFFFFFF"
    by simp
  have h1': "length (base32_decode (sim_device 0 0x9000 []) [0x4A, 0x42, 0x53, 0x57, 0])
        \<le> HOTP_SECRET_SIZE_BYTES sample_constants"
    by (simp add: sim_decode sample_constants_def)
  have h2: "(0xFFFFFFFE :: u64) < 0xFFFFFFFF
     \<and> length (base32_decode (sim_device 0 0x9000 []) [0x4A, 0x42, 0x53, 0x57, 0]) + 2
        \<le> HOTP_SECRET_SIZE_BYTES sample_constants"
    by (simp add: sim_decode sample_constants_def)
  have k: "Tag_InitialCounter sample_constants = 0x7A"
    by (simp add: sample_constants_def)
  from h1 h1' counter_precondition [of "0xFFFFFFFF" "sim_device 0 0x9000 []" sample_constants
      sample_device "[0x4A, 0x42, 0x53, 0x57, 0]"]
  have c1: "\<exists>t. set_secret_on_device_ccid (sim_device 0 0x9000 []) sample_constants sample_device
            [0x4A, 0x42, 0x53, 0x57, 0] 0xFFFFFFFF = (Inl (Rassert_failed t), sample_device, [])"
    by blast
  from h2 counter_precondition [of "0xFFFFFFFE" "sim_device 0 0x9000 []" sample_constants
      sample_device "[0x4A, 0x42, 0x53, 0x57, 0]"]
  have c2: "(\<exists>r. fst (set_secret_on_device_ccid (sim_device 0 0x9000 []) sample_constants
                  sample_device [0x4A, 0x42, 0x53, 0x57, 0] 0xFFFFFFFE) = Inr r)
     \<and> provision_tlvs (sim_device 0 0x9000 []) sample_constants [0x4A, 0x42, 0x53, 0x57, 0]
          0xFFFFFFFE ! 3
        = \<lparr>tag = Tag_InitialCounter sample_constants, len = 4, kind = CHR ''I'',
           val = V_raw (ucast (0xFFFFFFFE :: u64))\<rparr>
     \<and> uint (ucast (0xFFFFFFFE :: u64) :: u32) = uint (0xFFFFFFFE :: u64)"
    by blast
  from h1 h1' h2 c1 c2 k show ?thesis
    by simp
qed

text \<open>
  C2 as stated puts the bound one lower, at \<open>2^32 - 2\<close>. The counter 0xFFFFFFFE is not
  below "the maximum 32-bit value minus one", yet the operation runs the exchange and
  returns success.
\<close>

theorem counter_boundary_counterexample:
  "\<not> (0xFFFFFFFE :: u64) < 0xFFFFFFFF - 1
   \<and> fst (set_secret_on_device_ccid (sim_device 0 0x9000 []) sample_constants sample_device
             [0x4A, 0x42, 0x53, 0x57, 0] 0xFFFFFFFE) = Inr 0
   \<and> snd (snd (set_secret_on_device_ccid (sim_device 0 0x9000 []) sample_constants sample_device
             [0x4A, 0x42, 0x53, 0x57, 0] 0xFFFFFFFE))
        = [Exchange [0x01, 0x71, 0x04, 0x73, 0x06, 0x78, 0x02, 0x7A] 9]"
  by (simp add: set_secret_on_device_ccid_def sim_device_def sample_constants_def
      sample_device_def encode_def send_def clean_buffers_def sim_pack_def
      set_secret_tlvs_def binary_secret_buf_def Let_def)


subsection \<open>The oversized secret\<close>

text \<open>
  C3 asks that a secret whose decoded length exceeds \<open>HOTP_SECRET_SIZE_BYTES\<close> fails at
  the length check, before any transport call. The code has that check (line 107), but
  after the decoding: the decoder has no bound and the array has room for
  \<open>HOTP_SECRET_SIZE_BYTES\<close> decoded bytes, so such a secret has been written past the end
  of the array when the check is reached. With the sample size of eight bytes, a secret
  of nine bytes ends in the invalid write and never gets to the check.
\<close>

theorem oversized_secret_overruns_buffer:
  "set_secret_on_device_ccid (sim_device 0 0x9000 []) sample_constants sample_device
     [0x4A, 0x42, 0x53, 0x57, 0x59, 0x33, 0x44, 0x50, 0x45, 0] 0
   = (Inl Invalid_write, sample_device, [])"
proof -
  have "HOTP_SECRET_SIZE_BYTES sample_constants
      < length (base32_decode (sim_device 0 0x9000 [])
                  [0x4A, 0x42, 0x53, 0x57, 0x59, 0x33, 0x44, 0x50, 0x45, 0])"
    by (simp add: sim_decode sample_constants_def)
  then show ?thesis
    by (rule set_secret_overrun)
qed

subsection \<open>Status words of verify_code_ccid\<close>

text \<open>
  C4. For every candidate code and every exchange that the transport reports as
  successful, \<open>verify_code_ccid\<close> returns \<open>RET_VALIDATION_PASSED\<close> exactly when the status
  word is 0x9000, \<open>RET_SLOT_NOT_CONFIGURED\<close> exactly when it is 0x6A82, and
  \<open>RET_VALIDATION_FAILED\<close> exactly for every other status word. The three codes come from a
  header that is not at hand and are taken to be pairwise distinct.
\<close>

theorem verify_code_ccid_status_word:
  assumes ex: "exchange_of X dev (verify_code_tlvs K code) (Ins_VerifyCode K) = (0, res)"
    and d1: "RET_VALIDATION_PASSED K \<noteq> RET_SLOT_NOT_CONFIGURED K"
    and d2: "RET_VALIDATION_PASSED K \<noteq> RET_VALIDATION_FAILED K"
    and d3: "RET_SLOT_NOT_CONFIGURED K \<noteq> RET_VALIDATION_FAILED K"
  shows "(fst (verify_code_ccid X K dev code) = RET_VALIDATION_PASSED K \<longleftrightarrow>
            data_status_code res = 0x9000)
       \<and> (fst (verify_code_ccid X K dev code) = RET_SLOT_NOT_CONFIGURED K \<longleftrightarrow>
            data_status_code res = 0x6A82)
       \<and> (fst (verify_code_ccid X K dev code) = RET_VALIDATION_FAILED K \<longleftrightarrow>
            data_status_code res \<noteq> 0x9000 \<and> data_status_code res \<noteq> 0x6A82)"
proof -
  have r: "fst (verify_code_ccid X K dev code) =
      (if data_status_code res = 0x6A82 then RET_SLOT_NOT_CONFIGURED K
       else if data_status_code res \<noteq> 0x9000 then RET_VALIDATION_FAILED K
       else RET_VALIDATION_PASSED K)"
    using verify_code_ccid_fst [OF ex] by simp
  show ?thesis
    unfolding r using d1 d2 d3 by auto
qed

text \<open>The spec's scenario: the code 123456 against a device that answers 0x6A82.\<close>

theorem verify_code_ccid_status_word_witness:
  "exchange_of (sim_device 0 0x6A82 []) sample_device
       (verify_code_tlvs sample_constants 123456) (Ins_VerifyCode sample_constants)
     = (0, \<lparr>data_status_code = 0x6A82, data = [], data_len = 0\<rparr>)
   \<and> RET_VALIDATION_PASSED sample_constants \<noteq> RET_SLOT_NOT_CONFIGURED sample_constants
   \<and> RET_VALIDATION_PASSED sample_constants \<noteq> RET_VALIDATION_FAILED sample_constants
   \<and> RET_SLOT_NOT_CONFIGURED sample_constants \<noteq> RET_VALIDATION_FAILED sample_constants
   \<and> fst (verify_code_ccid (sim_device 0 0x6A82 []) sample_constants sample_device 123456)
       = RET_SLOT_NOT_CONFIGURED sample_constants"
proof -
  have ex: "exchange_of (sim_device 0 0x6A82 []) sample_device
       (verify_code_tlvs sample_constants 123456) (Ins_VerifyCode sample_constants)
     = (0, \<lparr>data_status_code = 0x6A82, data = [], data_len = 0\<rparr>)"
    by (simp add: exchange_of_def encode_def send_def sim_device_def sim_pack_def Let_def)
  have d: "RET_VALIDATION_PASSED sample_constants \<noteq> RET_SLOT_NOT_CONFIGURED sample_constants"
    "RET_VALIDATION_PASSED sample_constants \<noteq> RET_VALIDATION_FAILED sample_constants"
    "RET_SLOT_NOT_CONFIGURED sample_constants \<noteq> RET_VALIDATION_FAILED sample_constants"
    by (simp_all add: sample_constants_def)
  show ?thesis
    using verify_code_ccid_status_word [OF ex d] ex d by simp
qed

subsection \<open>The result of status_ccid\<close>




subsection \<open>Status words of set_secret_on_device_ccid\<close>

text \<open>
  C6. When both checks pass and the transport reports success, the status word decides
  the outcome of \<open>set_secret_on_device_ccid\<close>: 0x6a82 gives \<open>RET_NO_PIN_ATTEMPTS\<close>, 0x6982
  gives \<open>RET_SECURITY_STATUS_NOT_SATISFIED\<close>, 0x9000 gives \<open>RET_NO_ERROR\<close> and every other
  value gives \<open>RET_VALIDATION_FAILED\<close>.
\<close>

theorem set_secret_status_word:
  assumes len: "length (base32_decode X secret) + 2 \<le> HOTP_SECRET_SIZE_BYTES K"
    and cnt: "counter < 0xFFFFFFFF"
    and ex: "exchange_of X dev (provision_tlvs X K secret counter) (Ins_Put K) = (0, res)"
  shows "fst (set_secret_on_device_ccid X K dev secret counter) =
     Inr (if data_status_code res = 0x6a82 then RET_NO_PIN_ATTEMPTS K
          else if data_status_code res = 0x6982 then RET_SECURITY_STATUS_NOT_SATISFIED K
          else if data_status_code res = 0x9000 then RET_NO_ERROR K
          else RET_VALIDATION_FAILED K)"
proof -
  from ex obtain dev2 n dev3 calls where
    "encode X (clean_buffers dev) (provision_tlvs X K secret counter) (Ins_Put K) = (dev2, n)"
    "send X dev2 n = (0, res, dev3, calls)"
    by (rule exchange_ofD)
  from set_secret_run [OF len cnt this] show ?thesis
    by simp
qed

theorem set_secret_status_word_witness:
  "length (base32_decode (sim_device 0 0x6982 []) [0x4A, 0x42, 0x53, 0x57, 0]) + 2
     \<le> HOTP_SECRET_SIZE_BYTES sample_constants
   \<and> (0 :: u64) < 0xFFFFFFFF
   \<and> exchange_of (sim_device 0 0x6982 []) sample_device
        (provision_tlvs (sim_device 0 0x6982 []) sample_constants [0x4A, 0x42, 0x53, 0x57, 0] 0)
        (Ins_Put sample_constants)
      = (0, \<lparr>data_status_code = 0x6982, data = [], data_len = 0\<rparr>)
   \<and> fst (set_secret_on_device_ccid (sim_device 0 0x6982 []) sample_constants sample_device
             [0x4A, 0x42, 0x53, 0x57, 0] 0)
      = Inr (RET_SECURITY_STATUS_NOT_SATISFIED sample_constants)"
proof -
  have len: "length (base32_decode (sim_device 0 0x6982 []) [0x4A, 0x42, 0x53, 0x57, 0]) + 2
     \<le> HOTP_SECRET_SIZE_BYTES sample_constants"
    by (simp add: sim_decode sample_constants_def)
  have cnt: "(0 :: u64) < 0xFFFFFFFF"
    by simp
  have ex: "exchange_of (sim_device 0 0x6982 []) sample_device
        (provision_tlvs (sim_device 0 0x6982 []) sample_constants [0x4A, 0x42, 0x53, 0x57, 0] 0)
        (Ins_Put sample_constants)
      = (0, \<lparr>data_status_code = 0x6982, data = [], data_len = 0\<rparr>)"
    by (simp add: sim_exchange)
  show ?thesis
    using set_secret_status_word [OF len cnt ex] len cnt ex by simp
qed

subsection \<open>Truncation of the PIN\<close>

text \<open>
  C7. For every PIN, the password field that \<open>set_pin_ccid\<close> hands to the codec has the
  length \<open>min (strlen pin) MAX_PIN_SIZE_CCID\<close>, the one of \<open>authenticate_ccid\<close> the length
  \<open>min (strlen pin) 30\<close>; no PIN is rejected: each operation runs exactly one exchange,
  with the request packed from that field.
\<close>

theorem pin_field_truncated:
  "set_pin_tlvs K pin =
     [\<lparr>tag = Tag_Password K, len = min (strlen pin) (MAX_PIN_SIZE_CCID K),
       kind = CHR ''S'', val = V_str pin\<rparr>]
   \<and> snd (snd (set_pin_ccid X K dev pin)) =
       [request_of X dev (set_pin_tlvs K pin) (Ins_SetPIN K)]
   \<and> authenticate_tlvs K pin =
     [\<lparr>tag = Tag_Password K, len = min (strlen pin) 30, kind = CHR ''S'', val = V_str pin\<rparr>]
   \<and> snd (snd (authenticate_ccid X K dev pin)) =
       [request_of X dev (authenticate_tlvs K pin) (Ins_VerifyPIN K)]"
  by (simp add: set_pin_tlvs_def authenticate_tlvs_def strnlen_min
      set_pin_ccid_calls authenticate_ccid_calls)


text \<open>A PIN of eight characters, with the sample maximum of six for \<open>set_pin_ccid\<close>.\<close>

theorem pin_field_truncated_witness:
  "map len (set_pin_tlvs sample_constants
              [0x31, 0x32, 0x33, 0x34, 0x35, 0x36, 0x37, 0x38, 0]) = [6]
   \<and> map len (authenticate_tlvs sample_constants
              [0x31, 0x32, 0x33, 0x34, 0x35, 0x36, 0x37, 0x38, 0]) = [8]
   \<and> length (snd (snd (set_pin_ccid (sim_device 0 0x9000 []) sample_constants sample_device
                        [0x31, 0x32, 0x33, 0x34, 0x35, 0x36, 0x37, 0x38, 0]))) = 1"
  using pin_field_truncated [of sample_constants
      "[0x31, 0x32, 0x33, 0x34, 0x35, 0x36, 0x37, 0x38, 0]" "sim_device 0 0x9000 []"
      sample_device]
  by (simp add: sample_constants_def)

subsection \<open>Transport failures\<close>

text \<open>
  C8, as the code has it. Whenever the exchange of \<open>set_pin_ccid\<close>, \<open>authenticate_ccid\<close>,
  \<open>verify_code_ccid\<close> or (once its two checks have passed) \<open>set_secret_on_device_ccid\<close>
  reports a transport status other than 0, the operation returns that status unchanged,
  after exactly one transport call and whatever the status word of the response is.
  \<open>status_ccid\<close> does the same for a select status other than \<open>RET_NO_ERROR\<close>, and leaves
  its outputs as they were.
\<close>

theorem transport_status_propagates:
  "(fst (exchange_of X dev (set_pin_tlvs K pin) (Ins_SetPIN K)) \<noteq> 0 \<longrightarrow>
      fst (set_pin_ccid X K dev pin) = fst (exchange_of X dev (set_pin_tlvs K pin) (Ins_SetPIN K))
      \<and> snd (snd (set_pin_ccid X K dev pin)) =
          [request_of X dev (set_pin_tlvs K pin) (Ins_SetPIN K)])
   \<and> (fst (exchange_of X dev (authenticate_tlvs K pin) (Ins_VerifyPIN K)) \<noteq> 0 \<longrightarrow>
      fst (authenticate_ccid X K dev pin) =
          fst (exchange_of X dev (authenticate_tlvs K pin) (Ins_VerifyPIN K))
      \<and> snd (snd (authenticate_ccid X K dev pin)) =
          [request_of X dev (authenticate_tlvs K pin) (Ins_VerifyPIN K)])
   \<and> (length (base32_decode X secret) + 2 \<le> HOTP_SECRET_SIZE_BYTES K \<and> counter < 0xFFFFFFFF
      \<and> fst (exchange_of X dev (provision_tlvs X K secret counter) (Ins_Put K)) \<noteq> 0 \<longrightarrow>
      fst (set_secret_on_device_ccid X K dev secret counter) =
          Inr (fst (exchange_of X dev (provision_tlvs X K secret counter) (Ins_Put K)))
      \<and> snd (snd (set_secret_on_device_ccid X K dev secret counter)) =
          [request_of X dev (provision_tlvs X K secret counter) (Ins_Put K)])
   \<and> (fst (exchange_of X dev (verify_code_tlvs K code) (Ins_VerifyCode K)) \<noteq> 0 \<longrightarrow>
      fst (verify_code_ccid X K dev code) =
          fst (exchange_of X dev (verify_code_tlvs K code) (Ins_VerifyCode K))
      \<and> snd (snd (verify_code_ccid X K dev code)) =
          [request_of X dev (verify_code_tlvs K code) (Ins_VerifyCode K)])
   \<and> (fst (select_of X h) \<noteq> RET_NO_ERROR K \<longrightarrow>
      status_ccid X K (Some h) (Some a) (Some f) (Some s) =
        (Inr (fst (select_of X h),
              \<lparr>attempt_counter = a, firmware_version = f, serial_number = s\<rparr>), [Select]))"
proof (intro conjI impI)
  assume nz: "fst (exchange_of X dev (set_pin_tlvs K pin) (Ins_SetPIN K)) \<noteq> 0"
  show "fst (set_pin_ccid X K dev pin) = fst (exchange_of X dev (set_pin_tlvs K pin) (Ins_SetPIN K))"
    using set_pin_ccid_fst [of X dev K pin] nz
    by (cases "exchange_of X dev (set_pin_tlvs K pin) (Ins_SetPIN K)") simp
  show "snd (snd (set_pin_ccid X K dev pin)) = [request_of X dev (set_pin_tlvs K pin) (Ins_SetPIN K)]"
    by (rule set_pin_ccid_calls)
next
  assume nz: "fst (exchange_of X dev (authenticate_tlvs K pin) (Ins_VerifyPIN K)) \<noteq> 0"
  show "fst (authenticate_ccid X K dev pin) =
          fst (exchange_of X dev (authenticate_tlvs K pin) (Ins_VerifyPIN K))"
    using authenticate_ccid_fst [of X dev K pin] nz
    by (cases "exchange_of X dev (authenticate_tlvs K pin) (Ins_VerifyPIN K)") simp
  show "snd (snd (authenticate_ccid X K dev pin)) =
          [request_of X dev (authenticate_tlvs K pin) (Ins_VerifyPIN K)]"
    by (rule authenticate_ccid_calls)
next
  assume a: "length (base32_decode X secret) + 2 \<le> HOTP_SECRET_SIZE_BYTES K \<and> counter < 0xFFFFFFFF
      \<and> fst (exchange_of X dev (provision_tlvs X K secret counter) (Ins_Put K)) \<noteq> 0"
  then have len: "length (base32_decode X secret) + 2 \<le> HOTP_SECRET_SIZE_BYTES K"
    and cnt: "counter < 0xFFFFFFFF"
    and nz: "fst (exchange_of X dev (provision_tlvs X K secret counter) (Ins_Put K)) \<noteq> 0"
    by simp_all
  from nz obtain dev2 n res dev3 where
    "encode X (clean_buffers dev) (provision_tlvs X K secret counter) (Ins_Put K) = (dev2, n)"
    "send X dev2 n = (fst (exchange_of X dev (provision_tlvs X K secret counter) (Ins_Put K)),
        res, dev3, [request_of X dev (provision_tlvs X K secret counter) (Ins_Put K)])"
    by (rule propagate)
  from set_secret_run [OF len cnt this] nz
  show "fst (set_secret_on_device_ccid X K dev secret counter) =
          Inr (fst (exchange_of X dev (provision_tlvs X K secret counter) (Ins_Put K)))"
    and "snd (snd (set_secret_on_device_ccid X K dev secret counter)) =
          [request_of X dev (provision_tlvs X K secret counter) (Ins_Put K)]"
    by simp_all
next
  assume nz: "fst (exchange_of X dev (verify_code_tlvs K code) (Ins_VerifyCode K)) \<noteq> 0"
  show "fst (verify_code_ccid X K dev code) =
          fst (exchange_of X dev (verify_code_tlvs K code) (Ins_VerifyCode K))"
    using verify_code_ccid_fst [of X dev K code] nz
    by (cases "exchange_of X dev (verify_code_tlvs K code) (Ins_VerifyCode K)") simp
  show "snd (snd (verify_code_ccid X K dev code)) =
          [request_of X dev (verify_code_tlvs K code) (Ins_VerifyCode K)]"
    by (rule verify_code_ccid_calls)
next
  assume nz: "fst (select_of X h) \<noteq> RET_NO_ERROR K"
  show "status_ccid X K (Some h) (Some a) (Some f) (Some s) =
        (Inr (fst (select_of X h),
              \<lparr>attempt_counter = a, firmware_version = f, serial_number = s\<rparr>), [Select])"
    using status_ccid_run [of X h _ _ K a f s] nz
    by (cases "select_of X h") simp
qed

theorem transport_status_propagates_witness:
  "fst (exchange_of (sim_device (- 4) 0x9000 []) sample_device
          (set_pin_tlvs sample_constants [0x31, 0x32, 0x33, 0]) (Ins_SetPIN sample_constants)) \<noteq> 0
   \<and> fst (set_pin_ccid (sim_device (- 4) 0x9000 []) sample_constants sample_device
            [0x31, 0x32, 0x33, 0]) = - 4
   \<and> fst (authenticate_ccid (sim_device (- 4) 0x9000 []) sample_constants sample_device
            [0x31, 0x32, 0x33, 0]) = - 4
   \<and> fst (set_secret_on_device_ccid (sim_device (- 4) 0x9000 []) sample_constants sample_device
            [0x4A, 0x42, 0x53, 0x57, 0] 0) = Inr (- 4)
   \<and> fst (verify_code_ccid (sim_device (- 4) 0x9000 []) sample_constants sample_device 123456)
        = - 4
   \<and> status_ccid (sim_device (- 4) 0x9000 []) sample_constants (Some ()) (Some 42) (Some 7)
        (Some 9)
      = (Inr (- 4, \<lparr>attempt_counter = 42, firmware_version = 7, serial_number = 9\<rparr>), [Select])"
proof -
  let ?X = "sim_device (- 4) 0x9000 []"
  have nz: "\<And>tlvs ins. fst (exchange_of ?X sample_device tlvs ins) \<noteq> 0"
    by (simp add: sim_exchange)
  have v: "\<And>tlvs ins. fst (exchange_of ?X sample_device tlvs ins) = - 4"
    by (simp add: sim_exchange)
  have pre: "length (base32_decode ?X [0x4A, 0x42, 0x53, 0x57, 0]) + 2
        \<le> HOTP_SECRET_SIZE_BYTES sample_constants \<and> (0 :: u64) < 0xFFFFFFFF"
    by (simp add: sim_decode sample_constants_def)
  have sel: "fst (select_of ?X ()) \<noteq> RET_NO_ERROR sample_constants"
    "fst (select_of ?X ()) = - 4"
    by (simp_all add: sim_select sample_constants_def)
  from transport_status_propagates [of ?X sample_device sample_constants
      "[0x31, 0x32, 0x33, 0]" "[0x4A, 0x42, 0x53, 0x57, 0]" 0 123456 "()" 42 7 9]
    nz pre sel
  show ?thesis
    by (simp add: v)
qed

text \<open>
  C8 as stated adds that the propagated status differs from every protocol outcome.
  Nothing in the code keeps the two apart: a transport that reports the status 1 makes
  \<open>set_pin_ccid\<close> return 1, which is also what it returns after a successful exchange
  whose status word is 0x6F00.
\<close>

theorem transport_status_not_distinct_counterexample:
  "fst (exchange_of (sim_device 1 0x9000 []) sample_device
          (set_pin_tlvs sample_constants [0x31, 0x32, 0x33, 0]) (Ins_SetPIN sample_constants)) = 1
   \<and> fst (set_pin_ccid (sim_device 1 0x9000 []) sample_constants sample_device
            [0x31, 0x32, 0x33, 0]) = 1
   \<and> exchange_of (sim_device 0 0x6F00 []) sample_device
          (set_pin_tlvs sample_constants [0x31, 0x32, 0x33, 0]) (Ins_SetPIN sample_constants)
        = (0, \<lparr>data_status_code = 0x6F00, data = [], data_len = 0\<rparr>)
   \<and> fst (set_pin_ccid (sim_device 0 0x6F00 []) sample_constants sample_device
            [0x31, 0x32, 0x33, 0]) = 1"
  by (simp add: sim_exchange set_pin_ccid_fst [OF sim_exchange])


subsection \<open>Buffers are cleared before use\<close>

text \<open>
  C9, as the code has it. \<open>set_pin_ccid\<close>, \<open>authenticate_ccid\<close> and \<open>verify_code_ccid\<close>
  clear both buffers as their first step; \<open>set_secret_on_device_ccid\<close> clears them after
  the decoding and its two checks, and when a check fails it ends with the buffers as they
  were. In all four, the codec packs the request into a send buffer of zeros and the
  transport is handed a receive buffer of zeros: the whole result of the operation is the
  result of one exchange on zeroed buffers, mapped by the status word. That exchange is
  the same for two sessions with the same handle and the same buffer sizes, so no bytes
  left by an earlier command are observed.
\<close>

theorem operations_exchange_on_zeroed_buffers:
  "set_pin_ccid X K dev pin =
     (case exchange_zeroed X dev (set_pin_tlvs K pin) (Ins_SetPIN K) of
        (r, res, d, calls) \<Rightarrow>
          (if r \<noteq> 0 then r else if data_status_code res \<noteq> 0x9000 then 1 else 0, d, calls))
   \<and> authenticate_ccid X K dev pin =
     (case exchange_zeroed X dev (authenticate_tlvs K pin) (Ins_VerifyPIN K) of
        (r, res, d, calls) \<Rightarrow>
          (if r \<noteq> 0 then r
           else if data_status_code res = 0x6300 then RET_WRONG_PIN K
           else if data_status_code res \<noteq> 0x9000 then 1
           else RET_NO_ERROR K, d, calls))
   \<and> verify_code_ccid X K dev code =
     (case exchange_zeroed X dev (verify_code_tlvs K code) (Ins_VerifyCode K) of
        (r, res, d, calls) \<Rightarrow>
          (if r \<noteq> 0 then r
           else if data_status_code res = 0x6A82 then RET_SLOT_NOT_CONFIGURED K
           else if data_status_code res \<noteq> 0x9000 then RET_VALIDATION_FAILED K
           else RET_VALIDATION_PASSED K, d, calls))
   \<and> (length (base32_decode X secret) + 2 \<le> HOTP_SECRET_SIZE_BYTES K \<and> counter < 0xFFFFFFFF \<longrightarrow>
      set_secret_on_device_ccid X K dev secret counter =
        (case exchange_zeroed X dev (provision_tlvs X K secret counter) (Ins_Put K) of
           (r, res, d, calls) \<Rightarrow>
             (Inr (if r \<noteq> 0 then r
                   else if data_status_code res = 0x6a82 then RET_NO_PIN_ATTEMPTS K
                   else if data_status_code res = 0x6982
                     then RET_SECURITY_STATUS_NOT_SATISFIED K
                   else if data_status_code res \<noteq> 0x9000 then RET_VALIDATION_FAILED K
                   else RET_NO_ERROR K), d, calls)))
   \<and> (length (base32_decode X secret) \<le> HOTP_SECRET_SIZE_BYTES K
      \<and> \<not> (length (base32_decode X secret) + 2 \<le> HOTP_SECRET_SIZE_BYTES K
             \<and> counter < 0xFFFFFFFF) \<longrightarrow>
      (\<exists>t. set_secret_on_device_ccid X K dev secret counter =
             (Inl (Rassert_failed t), dev, [])))
   \<and> (mp_devhandle_ccid dev' = mp_devhandle_ccid dev
      \<and> length (ccid_buffer_in dev') = length (ccid_buffer_in dev)
      \<and> length (ccid_buffer_out dev') = length (ccid_buffer_out dev) \<longrightarrow>
      exchange_zeroed X dev' tlvs ins = exchange_zeroed X dev tlvs ins)"
proof (intro conjI impI)
  show "set_pin_ccid X K dev pin =
     (case exchange_zeroed X dev (set_pin_tlvs K pin) (Ins_SetPIN K) of
        (r, res, d, calls) \<Rightarrow>
          (if r \<noteq> 0 then r else if data_status_code res \<noteq> 0x9000 then 1 else 0, d, calls))"
    by (simp add: set_pin_ccid_def Let_def cleared_exchange [symmetric] split: prod.splits)
  show "authenticate_ccid X K dev pin =
     (case exchange_zeroed X dev (authenticate_tlvs K pin) (Ins_VerifyPIN K) of
        (r, res, d, calls) \<Rightarrow>
          (if r \<noteq> 0 then r
           else if data_status_code res = 0x6300 then RET_WRONG_PIN K
           else if data_status_code res \<noteq> 0x9000 then 1
           else RET_NO_ERROR K, d, calls))"
    by (simp add: authenticate_ccid_def Let_def cleared_exchange [symmetric] split: prod.splits)
  show "verify_code_ccid X K dev code =
     (case exchange_zeroed X dev (verify_code_tlvs K code) (Ins_VerifyCode K) of
        (r, res, d, calls) \<Rightarrow>
          (if r \<noteq> 0 then r
           else if data_status_code res = 0x6A82 then RET_SLOT_NOT_CONFIGURED K
           else if data_status_code res \<noteq> 0x9000 then RET_VALIDATION_FAILED K
           else RET_VALIDATION_PASSED K, d, calls))"
    by (simp add: verify_code_ccid_def Let_def cleared_exchange [symmetric] split: prod.splits)
next
  assume "length (base32_decode X secret) + 2 \<le> HOTP_SECRET_SIZE_BYTES K \<and> counter < 0xFFFFFFFF"
  then show "set_secret_on_device_ccid X K dev secret counter =
        (case exchange_zeroed X dev (provision_tlvs X K secret counter) (Ins_Put K) of
           (r, res, d, calls) \<Rightarrow>
             (Inr (if r \<noteq> 0 then r
                   else if data_status_code res = 0x6a82 then RET_NO_PIN_ATTEMPTS K
                   else if data_status_code res = 0x6982
                     then RET_SECURITY_STATUS_NOT_SATISFIED K
                   else if data_status_code res \<noteq> 0x9000 then RET_VALIDATION_FAILED K
                   else RET_NO_ERROR K), d, calls))"
    by (simp add: set_secret_on_device_ccid_def provision_tlvs_def Let_def
        cleared_exchange [symmetric] split: prod.splits)
next
  assume "length (base32_decode X secret) \<le> HOTP_SECRET_SIZE_BYTES K
      \<and> \<not> (length (base32_decode X secret) + 2 \<le> HOTP_SECRET_SIZE_BYTES K
             \<and> counter < 0xFFFFFFFF)"
  then show "\<exists>t. set_secret_on_device_ccid X K dev secret counter =
      (Inl (Rassert_failed t), dev, [])"
    by (intro set_secret_check_failed) simp_all
next
  assume "mp_devhandle_ccid dev' = mp_devhandle_ccid dev
      \<and> length (ccid_buffer_in dev') = length (ccid_buffer_in dev)
      \<and> length (ccid_buffer_out dev') = length (ccid_buffer_out dev)"
  then show "exchange_zeroed X dev' tlvs ins = exchange_zeroed X dev tlvs ins"
    by (intro exchange_zeroed_cong) simp_all
qed

text \<open>
  \<open>set_pin_ccid\<close> on a session with stale bytes: the request and the final buffers show
  none of them, and a second session with other stale bytes gives the same exchange.
\<close>

theorem operations_exchange_on_zeroed_buffers_witness:
  "set_pin_ccid (sim_device 0 0x9000 []) sample_constants sample_device [0x31, 0x32, 0x33, 0]
      = (0, \<lparr>mp_devhandle_ccid = (), ccid_buffer_in = [0, 0, 0, 0, 0, 0, 0, 0],
              ccid_buffer_out = [0xB4, 0x80, 3, 0, 0, 0, 0, 0]\<rparr>,
         [Exchange [0xB4, 0x80, 3, 0, 0, 0, 0, 0] 3])
   \<and> length (base32_decode (sim_device 0 0x9000 []) [0x4A, 0x42, 0x53, 0x57, 0]) + 2
        \<le> HOTP_SECRET_SIZE_BYTES sample_constants
   \<and> (0 :: u64) < 0xFFFFFFFF
   \<and> set_secret_on_device_ccid (sim_device 0 0x9000 []) sample_constants sample_device
        [0x4A, 0x42, 0x53, 0x57, 0] 0
      = (Inr 0, \<lparr>mp_devhandle_ccid = (), ccid_buffer_in = [0, 0, 0, 0, 0, 0, 0, 0],
                  ccid_buffer_out = [0x01, 0x71, 0x04, 0x73, 0x06, 0x78, 0x02, 0x7A]\<rparr>,
         [Exchange [0x01, 0x71, 0x04, 0x73, 0x06, 0x78, 0x02, 0x7A] 9])
   \<and> mp_devhandle_ccid other_device = mp_devhandle_ccid sample_device
   \<and> length (ccid_buffer_in other_device) = length (ccid_buffer_in sample_device)
   \<and> length (ccid_buffer_out other_device) = length (ccid_buffer_out sample_device)
   \<and> ccid_buffer_out other_device \<noteq> ccid_buffer_out sample_device
   \<and> exchange_zeroed (sim_device 0 0x9000 []) other_device
        (set_pin_tlvs sample_constants [0x31, 0x32, 0x33, 0]) (Ins_SetPIN sample_constants)
      = exchange_zeroed (sim_device 0 0x9000 []) sample_device
        (set_pin_tlvs sample_constants [0x31, 0x32, 0x33, 0]) (Ins_SetPIN sample_constants)"
proof -
  let ?X = "sim_device 0 0x9000 []"
  let ?pin = "[0x31, 0x32, 0x33, 0] :: bytes"
  let ?secret = "[0x4A, 0x42, 0x53, 0x57, 0] :: bytes"
  have pre: "length (base32_decode ?X ?secret) + 2 \<le> HOTP_SECRET_SIZE_BYTES sample_constants
      \<and> (0 :: u64) < 0xFFFFFFFF"
    by (simp add: sim_decode sample_constants_def)
  have same: "mp_devhandle_ccid other_device = mp_devhandle_ccid sample_device
      \<and> length (ccid_buffer_in other_device) = length (ccid_buffer_in sample_device)
      \<and> length (ccid_buffer_out other_device) = length (ccid_buffer_out sample_device)"
    and ne: "ccid_buffer_out other_device \<noteq> ccid_buffer_out sample_device"
    by (simp_all add: other_device_def sample_device_def)
  have z1: "exchange_zeroed ?X sample_device (set_pin_tlvs sample_constants ?pin)
        (Ins_SetPIN sample_constants)
      = (0, \<lparr>data_status_code = 0x9000, data = [], data_len = 0\<rparr>,
         \<lparr>mp_devhandle_ccid = (), ccid_buffer_in = [0, 0, 0, 0, 0, 0, 0, 0],
          ccid_buffer_out = [0xB4, 0x80, 3, 0, 0, 0, 0, 0]\<rparr>,
         [Exchange [0xB4, 0x80, 3, 0, 0, 0, 0, 0] 3])"
    by (simp add: exchange_zeroed_def set_pin_tlvs_def sim_device_def sample_constants_def
        sample_device_def sim_pack_def strnlen_min Let_def)
  have z2: "exchange_zeroed ?X sample_device (provision_tlvs ?X sample_constants ?secret 0)
        (Ins_Put sample_constants)
      = (0, \<lparr>data_status_code = 0x9000, data = [], data_len = 0\<rparr>,
         \<lparr>mp_devhandle_ccid = (), ccid_buffer_in = [0, 0, 0, 0, 0, 0, 0, 0],
          ccid_buffer_out = [0x01, 0x71, 0x04, 0x73, 0x06, 0x78, 0x02, 0x7A]\<rparr>,
         [Exchange [0x01, 0x71, 0x04, 0x73, 0x06, 0x78, 0x02, 0x7A] 9])"
    by (simp add: exchange_zeroed_def provision_tlvs_def set_secret_tlvs_def
        binary_secret_buf_def sim_device_def sample_constants_def sample_device_def
        sim_pack_def Let_def)
  from operations_exchange_on_zeroed_buffers [of ?X sample_constants sample_device ?pin
      123456 ?secret 0 other_device "set_pin_tlvs sample_constants ?pin"
      "Ins_SetPIN sample_constants"] pre same ne z1 z2
  show ?thesis
    by (simp add: sample_constants_def)
qed

text \<open>
  C9 as stated has every operation clear the buffers at its start. An initial counter of
  0xFFFFFFFF fails the second check of \<open>set_secret_on_device_ccid\<close>, which comes before
  the clearing: the operation ends with the bytes of the earlier command still in both
  buffers.
\<close>

theorem set_secret_keeps_stale_buffers_counterexample:
  "set_secret_on_device_ccid (sim_device 0 0x9000 []) sample_constants sample_device
     [0x4A, 0x42, 0x53, 0x57, 0] 0xFFFFFFFF
   = (Inl (Rassert_failed ''hotp_counter < 0xFFFFFFFF''),
      \<lparr>mp_devhandle_ccid = (),
       ccid_buffer_in = [0x90, 0x00, 0xDE, 0xAD, 0xBE, 0xEF, 0x01, 0x02],
       ccid_buffer_out = [0xB2, 0x80, 0x04, 0x31, 0x32, 0x33, 0x34, 0x00]\<rparr>,
      [])"
  by (simp add: set_secret_on_device_ccid_def sim_device_def sample_constants_def
      sample_device_def Let_def)

subsection \<open>A select response that is empty or not successful\<close>

text \<open>
  C10. When the select exchange succeeds at the transport level but the response has no
  data or a status word other than 0x9000, \<open>status_ccid\<close> returns \<open>RET_COMM_ERROR\<close> with
  the three outputs as they were. No field is looked up: the result is the same for every
  behaviour \<open>g\<close> of \<^verbatim>\<open>get_tlv\<close>.
\<close>

theorem status_ccid_rejects_bad_select:
  assumes sel: "select_of X h = (RET_NO_ERROR K, res)"
    and bad: "data_len res = 0 \<or> data_status_code res \<noteq> 0x9000"
  shows "status_ccid (X\<lparr>get_tlv := g\<rparr>) K (Some h) (Some a) (Some f) (Some s) =
     (Inr (RET_COMM_ERROR K,
           \<lparr>attempt_counter = a, firmware_version = f, serial_number = s\<rparr>), [Select])"
proof -
  have "select_of (X\<lparr>get_tlv := g\<rparr>) h = (RET_NO_ERROR K, res)"
    using sel by (simp add: select_of_get_tlv)
  from status_ccid_run [OF this] bad show ?thesis
    by auto
qed


text \<open>
  A response with the status word 0x6A82, and a \<^verbatim>\<open>get_tlv\<close> that would find every
  field.
\<close>

theorem status_ccid_rejects_bad_select_witness:
  "select_of (sim_device 0 0x6A82 [0x79, 2, 1, 0]) ()
     = (RET_NO_ERROR sample_constants,
        \<lparr>data_status_code = 0x6A82, data = [0x79, 2, 1, 0], data_len = 4\<rparr>)
   \<and> data_status_code \<lparr>data_status_code = 0x6A82, data = [0x79, 2, 1, 0], data_len = 4\<rparr>
        \<noteq> 0x9000
   \<and> status_ccid (sim_device 0 0x6A82 [0x79, 2, 1, 0]
                    \<lparr>get_tlv := \<lambda>d n t out. (0, out\<lparr>tag := t, val := V_data [1, 2, 3, 4]\<rparr>)\<rparr>)
        sample_constants (Some ()) (Some 42) (Some 7) (Some 9)
      = (Inr (RET_COMM_ERROR sample_constants,
              \<lparr>attempt_counter = 42, firmware_version = 7, serial_number = 9\<rparr>),
         [Select])"
proof -
  let ?res = "\<lparr>data_status_code = 0x6A82, data = [0x79, 2, 1, 0], data_len = 4\<rparr>"
  have sel: "select_of (sim_device 0 0x6A82 [0x79, 2, 1, 0]) ()
     = (RET_NO_ERROR sample_constants, ?res)"
    by (simp add: sim_select sample_constants_def)
  have bad: "data_len ?res = 0 \<or> data_status_code ?res \<noteq> 0x9000"
    by simp
  from status_ccid_rejects_bad_select [OF sel bad] sel show ?thesis
    by simp
qed


end
